theory Spec2Isabelle
  imports Main "HOL-Library.Char_ord" "HOL-Library.List_Lexorder" "HOL-Library.Product_Lexorder"
begin

section \<open>Time\<close>

text \<open>
  A \<open>datetime\<close> is a number of microseconds (the resolution of Python's datetime) on the
  time line of the configured time zone; a \<open>date\<close> is a day number on the same line and a
  \<open>timedelta\<close> a signed number of microseconds. The \<open>date\<close> column of a session is stored
  independently of its \<open>check_in_time\<close>, as in the model class.
\<close>

type_synonym datetime = int
type_synonym date = int
type_synonym timedelta = int

definition usec_per_second :: int where
  "usec_per_second = 1000000"

definition usec_per_day :: int where
  "usec_per_day = 86400 * usec_per_second"

text \<open>\<open>timedelta(hours=2)\<close>.\<close>

definition two_hours :: timedelta where
  "two_hours = 2 * 3600 * usec_per_second"

text \<open>\<open>now.date()\<close>.\<close>

definition date_of :: "datetime \<Rightarrow> date" where
  "date_of t = t div usec_per_day"

text \<open>\<open>_end_of_day(d)\<close> of maintenance.py: the instant 23:59:59 of day \<open>d\<close>.\<close>

definition end_of_day :: "date \<Rightarrow> datetime" where
  "end_of_day d = d * usec_per_day + (23 * 3600 + 59 * 60 + 59) * usec_per_second"

text \<open>
  \<open>int(td.total_seconds() / 60)\<close>: true division followed by \<open>int\<close>, which truncates
  towards zero.
\<close>

definition int_minutes :: "timedelta \<Rightarrow> int" where
  "int_minutes td =
     (if td < 0 then - ((- td) div (60 * usec_per_second)) else td div (60 * usec_per_second))"

text \<open>\<open>int(td.total_seconds() // 60)\<close>: floor division.\<close>

definition floor_minutes :: "timedelta \<Rightarrow> int" where
  "floor_minutes td = td div (60 * usec_per_second)"

section \<open>Data model (gym\_app/models.py)\<close>

text \<open>
  \<open>Student\<close>: the primary key, the \<open>student_id\<close> string and the \<open>is_active\<close> flag are the
  columns the session logic reads.
\<close>

record student_rec =
  student_pk :: nat
  student_id :: string
  student_is_active :: bool

text \<open>
  \<open>GymSession\<close>. \<open>check_in_time\<close> is a non-null column, so every row read from the
  store has one (the capper's \<open>if not session.check_in_time: continue\<close> never fires on
  a stored row); \<open>check_out_time\<close> is nullable; \<open>student\<close> is the foreign key (the
  student's primary key). The store keeps the record that \<open>save\<close> hands it: column
  constraints of the database backend are not part of this model.
\<close>

record gym_session =
  pk :: nat
  student :: nat
  check_in_time :: datetime
  check_out_time :: "datetime option"
  duration_minutes :: int
  date :: date
  is_active :: bool

text \<open>\<open>DailyGymStats\<close>: one row per (student, date), \<open>unique_together\<close>.\<close>

record daily_gym_stats =
  total_sessions :: nat
  total_minutes :: int

record store =
  students :: "student_rec list"
  sessions :: "gym_session list"
  daily_stats :: "nat \<times> date \<Rightarrow> daily_gym_stats option"

subsection \<open>GymSession.save\<close>

text \<open>
  The override of \<open>save\<close> recomputes the duration and clears \<open>is_active\<close> when both
  timestamps are set, then hands the instance to the database.
\<close>

definition save_fields :: "gym_session \<Rightarrow> gym_session" where
  "save_fields s =
     (case check_out_time s of
        Some co \<Rightarrow> s\<lparr>duration_minutes := int_minutes (co - check_in_time s), is_active := False\<rparr>
      | None \<Rightarrow> s)"

text \<open>\<open>super().save()\<close>: update the row with this primary key, insert it if there is none.\<close>

definition db_write :: "store \<Rightarrow> gym_session \<Rightarrow> store" where
  "db_write st s =
     st\<lparr>sessions :=
          (if pk s \<in> set (map pk (sessions st))
           then map (\<lambda>r. if pk r = pk s then s else r) (sessions st)
           else sessions st @ [s])\<rparr>"

definition save :: "store \<Rightarrow> gym_session \<Rightarrow> store" where
  "save st s = db_write st (save_fields s)"

text \<open>
  \<open>GymSession.objects.create(student=..., check_in_time=..., date=...)\<close>: the other
  columns take their defaults and the key is a fresh one. The instance returned is the
  one \<open>save\<close> has worked on.
\<close>

definition next_pk :: "store \<Rightarrow> nat" where
  "next_pk st = Suc (fold max (map pk (sessions st)) 0)"

definition create_session :: "store \<Rightarrow> nat \<Rightarrow> datetime \<Rightarrow> date \<Rightarrow> store \<times> gym_session" where
  "create_session st stu t d =
     (let s = \<lparr>pk = next_pk st, student = stu, check_in_time = t,
                check_out_time = None, duration_minutes = 0, date = d, is_active = True\<rparr>
      in (save st s, save_fields s))"

subsection \<open>Queries\<close>

text \<open>The completed sessions of a student on a date: \<open>check_out_time__isnull=False\<close>.\<close>

definition completed_on :: "store \<Rightarrow> nat \<Rightarrow> date \<Rightarrow> gym_session list" where
  "completed_on st stu d =
     filter (\<lambda>s. student s = stu \<and> date s = d \<and> check_out_time s \<noteq> None) (sessions st)"

text \<open>\<open>GymSession.get_daily_gym_time\<close>.\<close>

definition get_daily_gym_time :: "store \<Rightarrow> nat \<Rightarrow> date \<Rightarrow> int" where
  "get_daily_gym_time st stu d = sum_list (map duration_minutes (completed_on st stu d))"

text \<open>
  \<open>GymSession.objects.filter(student=student, is_active=True).first()\<close>, under the model's
  default ordering \<open>-check_in_time\<close>.
\<close>

definition active_session :: "store \<Rightarrow> nat \<Rightarrow> gym_session option" where
  "active_session st stu =
     (case sort_key (\<lambda>s. - check_in_time s)
             (filter (\<lambda>s. student s = stu \<and> is_active s) (sessions st)) of
        [] \<Rightarrow> None
      | s # _ \<Rightarrow> Some s)"

text \<open>\<open>GymSession.can_check_in\<close>: returns (can\_check\_in, remaining\_minutes).\<close>

definition can_check_in :: "store \<Rightarrow> nat \<Rightarrow> date \<Rightarrow> bool \<times> int" where
  "can_check_in st stu d =
     (case active_session st stu of
        Some a \<Rightarrow> (False, 0)
      | None \<Rightarrow>
          (let daily_minutes = get_daily_gym_time st stu d;
               max_daily_minutes = 120;
               remaining_minutes = max_daily_minutes - daily_minutes
           in (remaining_minutes > 0, max 0 remaining_minutes)))"

subsection \<open>DailyGymStats.update\_daily\_stats\<close>

definition update_daily_stats :: "store \<Rightarrow> nat \<Rightarrow> date \<Rightarrow> store" where
  "update_daily_stats st stu d =
     (let ss = completed_on st stu d;
          n = length ss;
          m = sum_list (map duration_minutes ss)
      in st\<lparr>daily_stats := (daily_stats st)((stu, d) \<mapsto> \<lparr>total_sessions = n, total_minutes = m\<rparr>)\<rparr>)"

section \<open>Check-in and check-out (serializers.py, views.py)\<close>

datatype action = Check_in | Check_out

text \<open>
  The errors a request is answered with: the four \<open>ValidationError\<close>s raised by
  \<open>CheckInOutSerializer.validate\<close> (HTTP 400) and the view's catch-all (HTTP 500).
\<close>

datatype api_error =
    Student_not_found
  | Already_checked_in
  | Daily_limit_reached int
  | Not_checked_in
  | Server_error

text \<open>
  \<open>CheckInOutSerializer.validate\<close>; \<open>today\<close> is \<open>timezone.now().date()\<close>. On success it
  returns the student and the active session it found.
\<close>

definition validate ::
  "store \<Rightarrow> date \<Rightarrow> string \<Rightarrow> action \<Rightarrow> api_error + (student_rec \<times> gym_session option)" where
  "validate st today sid act =
     (case find (\<lambda>u. student_id u = sid \<and> student_is_active u) (students st) of
        None \<Rightarrow> Inl Student_not_found
      | Some stu \<Rightarrow>
          (let active = active_session st (student_pk stu) in
           case act of
             Check_in \<Rightarrow>
               (if active \<noteq> None then Inl Already_checked_in
                else (case can_check_in st (student_pk stu) today of
                        (can, remaining_minutes) \<Rightarrow>
                          if \<not> can then Inl (Daily_limit_reached remaining_minutes)
                          else Inr (stu, active)))
           | Check_out \<Rightarrow>
               (if active = None then Inl Not_checked_in else Inr (stu, active))))"

text \<open>
  \<open>GymCheckInOutView.post\<close>, on data that passed the serializer's field checks: an
  invalid request is answered with the errors and nothing is written; a valid one creates
  the session, or completes the active one and recomputes the day's statistics. A
  check-out without an active session cannot pass \<open>validate\<close>; the attribute error it
  would raise in the view is caught and answered as a server error.
\<close>

definition check_in_out_post ::
  "store \<Rightarrow> datetime \<Rightarrow> string \<Rightarrow> action \<Rightarrow> store \<times> (api_error + gym_session)" where
  "check_in_out_post st now sid act =
     (case validate st (date_of now) sid act of
        Inl e \<Rightarrow> (st, Inl e)
      | Inr (stu, active) \<Rightarrow>
          (case act of
             Check_in \<Rightarrow>
               (case create_session st (student_pk stu) now (date_of now) of
                  (st1, s) \<Rightarrow> (st1, Inr s))
           | Check_out \<Rightarrow>
               (case active of
                  None \<Rightarrow> (st, Inl Server_error)
                | Some a \<Rightarrow>
                    (let a1 = a\<lparr>check_out_time := Some now\<rparr>;
                         st1 = save st a1;
                         st2 = update_daily_stats st1 (student_pk stu) (date a1)
                     in (st2, Inr (save_fields a1))))))"

section \<open>Maintenance (gym\_app/maintenance.py)\<close>

text \<open>The filter of the stale-session closer.\<close>

definition is_stale :: "date \<Rightarrow> gym_session \<Rightarrow> bool" where
  "is_stale today s \<longleftrightarrow> is_active s \<and> check_out_time s = None \<and> date s < today"

text \<open>
  The fields the closer assigns before calling \<open>save\<close>, with its own clamp of the
  duration.
\<close>

definition close_assign :: "gym_session \<Rightarrow> gym_session" where
  "close_assign session =
     (let check_in = check_in_time session;
          max_checkout_by_duration = check_in + two_hours;
          max_checkout_by_day = end_of_day (date session);
          new_checkout = min max_checkout_by_duration max_checkout_by_day;
          duration_minutes0 = floor_minutes (new_checkout - check_in);
          duration_minutes1 = (if duration_minutes0 < 0 then 0 else duration_minutes0)
      in session\<lparr>check_out_time := Some new_checkout,
                 duration_minutes := duration_minutes1,
                 is_active := False\<rparr>)"

text \<open>
  One iteration of the closer's loop; the state is the store, \<open>updated_sessions\<close> and
  \<open>updated_days\<close> (a set, kept as a duplicate-free list).
\<close>

definition close_step ::
  "store \<times> nat \<times> (nat \<times> date) list \<Rightarrow> gym_session \<Rightarrow> store \<times> nat \<times> (nat \<times> date) list" where
  "close_step acc session =
     (case acc of (st, updated_sessions, updated_days) \<Rightarrow>
        (let session1 = close_assign session;
             st1 = save st session1;
             st2 = update_daily_stats st1 (student session1) (date session1)
         in (st2, updated_sessions + 1,
             List.insert (student session1, date session1) updated_days)))"

definition close_stale_sessions_before_today :: "store \<Rightarrow> date \<Rightarrow> store \<times> nat \<times> nat" where
  "close_stale_sessions_before_today st today =
     (let qs = sort_key (\<lambda>s. - check_in_time s) (filter (is_stale today) (sessions st))
      in case foldl close_step (st, 0, []) qs of
           (st1, updated_sessions, updated_days) \<Rightarrow>
             (st1, updated_sessions, length updated_days))"

text \<open>The checkout the capper measures: the stored one, or the end of the session's day.\<close>

definition actual_checkout :: "gym_session \<Rightarrow> datetime" where
  "actual_checkout session =
     (case check_out_time session of
        Some co \<Rightarrow> co
      | None \<Rightarrow> end_of_day (date session))"

definition cap_assign :: "gym_session \<Rightarrow> gym_session" where
  "cap_assign session =
     (let capped_checkout = check_in_time session + two_hours;
          new_duration_minutes = floor_minutes two_hours
      in session\<lparr>check_out_time := Some capped_checkout,
                 duration_minutes := new_duration_minutes,
                 is_active := False\<rparr>)"

text \<open>
  One iteration of the capper's loop; the state is the store, \<open>examined_sessions\<close> and
  \<open>updated_sessions\<close>.
\<close>

definition cap_step :: "store \<times> nat \<times> nat \<Rightarrow> gym_session \<Rightarrow> store \<times> nat \<times> nat" where
  "cap_step acc session =
     (case acc of (st, examined_sessions, updated_sessions) \<Rightarrow>
        (let duration = actual_checkout session - check_in_time session
         in if duration \<le> two_hours then (st, examined_sessions + 1, updated_sessions)
            else
              (let session1 = cap_assign session;
                   st1 = save st session1;
                   st2 = update_daily_stats st1 (student session1) (date session1)
               in (st2, examined_sessions + 1, updated_sessions + 1))))"

definition cap_sessions_on_previous_days_to_two_hours :: "store \<Rightarrow> date \<Rightarrow> store \<times> nat \<times> nat" where
  "cap_sessions_on_previous_days_to_two_hours st today =
     (let qs = sort_key check_in_time (filter (\<lambda>s. date s < today) (sessions st))
      in foldl cap_step (st, 0, 0) qs)"

definition run_daily_maintenance :: "store \<Rightarrow> date \<Rightarrow> store" where
  "run_daily_maintenance st today =
     (case close_stale_sessions_before_today st today of
        (st1, _, _) \<Rightarrow>
          (case cap_sessions_on_previous_days_to_two_hours st1 today of
             (st2, _, _) \<Rightarrow> st2))"

section \<open>Duplicate merge (OLD\_LOGS/merge\_duplicates.py)\<close>

text \<open>
  A candidate row: the keys of the dict that \<open>choose_primary\<close> reads. \<open>None\<close> is SQL NULL.
\<close>

record cand_row =
  row_id :: int
  row_student_id :: "string option"
  row_rfid :: "string option"
  row_registration_date :: "string option"

text \<open>\<open>\d\<close>, on ASCII text.\<close>

definition is_digit :: "char \<Rightarrow> bool" where
  "is_digit c \<longleftrightarrow> c \<in> set ''0123456789''"

text \<open>\<open>re.fullmatch(r"^202\d-(140|040)\d{3}$", s)\<close>.\<close>

fun matches_preferred :: "string \<Rightarrow> bool" where
  "matches_preferred [a, b, c, d, e, f, g, h, i, j, k] \<longleftrightarrow>
     [a, b, c] = ''202'' \<and> is_digit d \<and> e = CHR ''-'' \<and>
     ([f, g, h] = ''140'' \<or> [f, g, h] = ''040'') \<and> is_digit i \<and> is_digit j \<and> is_digit k"
| "matches_preferred _ \<longleftrightarrow> False"

text \<open>\<open>re.fullmatch(r"^20\d{2}-\d{6}$", s)\<close>.\<close>

fun matches_standard :: "string \<Rightarrow> bool" where
  "matches_standard [a, b, c, d, e, f, g, h, i, j, k] \<longleftrightarrow>
     [a, b] = ''20'' \<and> is_digit c \<and> is_digit d \<and> e = CHR ''-'' \<and>
     is_digit f \<and> is_digit g \<and> is_digit h \<and> is_digit i \<and> is_digit j \<and> is_digit k"
| "matches_standard _ \<longleftrightarrow> False"

text \<open>\<open>id_score\<close>; the one-element tuple is its component.\<close>

definition id_score :: "string option \<Rightarrow> nat" where
  "id_score sid =
     (case sid of
        None \<Rightarrow> 3
      | Some s \<Rightarrow>
          if s = [] then 3
          else if matches_preferred s then 0
          else if matches_standard s then 1
          else 2)"

text \<open>The sort key of \<open>choose_primary\<close>, a tuple compared lexicographically.\<close>

definition key :: "cand_row \<Rightarrow> nat \<times> nat \<times> string \<times> int" where
  "key r =
     (id_score (row_student_id r),
      (case row_rfid r of None \<Rightarrow> 1 | Some t \<Rightarrow> if t = [] then 1 else 0),
      (case row_registration_date r of None \<Rightarrow> [] | Some t \<Rightarrow> t),
      row_id r)"

text \<open>\<open>choose_primary\<close>: \<open>sorted(rows, key=key)[0]\<close>, an IndexError on an empty group.\<close>

definition choose_primary :: "cand_row list \<Rightarrow> cand_row option" where
  "choose_primary rows =
     (case sort_key key rows of
        [] \<Rightarrow> None
      | r # _ \<Rightarrow> Some r)"


section \<open>Notions used in the statements\<close>

text \<open>Saving an assigned session and recomputing its day, as both maintenance loops do.\<close>

definition apply_upd :: "store \<Rightarrow> gym_session \<Rightarrow> store" where
  "apply_upd st y = update_daily_stats (save st y) (student y) (date y)"

text \<open>The capper's test \<open>duration > max_duration\<close>.\<close>

definition needs_cap :: "gym_session \<Rightarrow> bool" where
  "needs_cap s \<longleftrightarrow> actual_checkout s - check_in_time s > two_hours"



section \<open>Example data\<close>

text \<open>
  Day 0 is the previous day and day 1 is today. Session 1 is the overlong visit
  09:32:45 to 20:34:32; sessions 2 and 3 were left open at 09:00 and at 23:00; session 4
  is open today; session 5 is a completed visit of eleven hours today.
\<close>

definition demo_sessions :: "gym_session list" where
  "demo_sessions =
     [\<lparr>pk = 1, student = 1, check_in_time = 34365000000, check_out_time = Some 74072000000,
        duration_minutes = 661, date = 0, is_active = False\<rparr>,
      \<lparr>pk = 2, student = 2, check_in_time = 32400000000, check_out_time = None,
        duration_minutes = 0, date = 0, is_active = True\<rparr>,
      \<lparr>pk = 3, student = 1, check_in_time = 82800000000, check_out_time = None,
        duration_minutes = 0, date = 0, is_active = True\<rparr>,
      \<lparr>pk = 4, student = 2, check_in_time = 115200000000, check_out_time = None,
        duration_minutes = 0, date = 1, is_active = True\<rparr>,
      \<lparr>pk = 5, student = 3, check_in_time = 118800000000, check_out_time = Some 158400000000,
        duration_minutes = 660, date = 1, is_active = False\<rparr>]"

definition demo_students :: "student_rec list" where
  "demo_students =
     [\<lparr>student_pk = 1, student_id = ''2023-123456'', student_is_active = True\<rparr>,
      \<lparr>student_pk = 2, student_id = ''2024-140123'', student_is_active = True\<rparr>,
      \<lparr>student_pk = 3, student_id = ''2022-040777'', student_is_active = True\<rparr>,
      \<lparr>student_pk = 4, student_id = ''2025-000004'', student_is_active = True\<rparr>]"

definition demo_store :: store where
  "demo_store =
     \<lparr>students = demo_students, sessions = demo_sessions,
      daily_stats = [(1, 0) \<mapsto> \<lparr>total_sessions = 7, total_minutes = 999\<rparr>]\<rparr>"

text \<open>
  A session whose date column is day 0 although it was opened at 00:01:29 of day 1,
  ninety seconds after the end of day 0.
\<close>

definition skew_session :: gym_session where
  "skew_session =
     \<lparr>pk = 1, student = 1, check_in_time = 86489000000, check_out_time = None,
      duration_minutes = 0, date = 0, is_active = True\<rparr>"

definition skew_store :: store where
  "skew_store = \<lparr>students = [], sessions = [skew_session], daily_stats = Map.empty\<rparr>"


text \<open>Two candidates of one name, equal in ID pattern and both with an RFID tag.\<close>

definition cand_earlier :: cand_row where
  "cand_earlier =
     \<lparr>row_id = 7, row_student_id = Some ''2023-123456'', row_rfid = Some ''04A1B2'',
      row_registration_date = Some ''2024-08-01 09:00:00''\<rparr>"

definition cand_later :: cand_row where
  "cand_later =
     \<lparr>row_id = 3, row_student_id = Some ''2023-654321'', row_rfid = Some ''04C3D4'',
      row_registration_date = Some ''2025-02-10 09:00:00''\<rparr>"

lemmas time_defs = two_hours_def end_of_day_def usec_per_second_def usec_per_day_def
  floor_minutes_def int_minutes_def date_of_def

lemmas demo_defs = demo_store_def demo_sessions_def demo_students_def

lemmas maintenance_defs = close_stale_sessions_before_today_def is_stale_def close_step_def
  close_assign_def save_def save_fields_def db_write_def update_daily_stats_def
  completed_on_def cap_sessions_on_previous_days_to_two_hours_def cap_step_def
  cap_assign_def actual_checkout_def

section \<open>Properties\<close>

lemma save_fields_keys [simp]:
  "pk (save_fields s) = pk s" "student (save_fields s) = student s" "date (save_fields s) = date s"
  "check_in_time (save_fields s) = check_in_time s" "check_out_time (save_fields s) = check_out_time s"
  by (simp_all add: save_fields_def split: option.split)

lemma close_assign_keys [simp]:
  "pk (close_assign s) = pk s" "student (close_assign s) = student s" "date (close_assign s) = date s"
  "check_in_time (close_assign s) = check_in_time s"
  by (simp_all add: close_assign_def Let_def)

lemma cap_assign_keys [simp]:
  "pk (cap_assign s) = pk s" "student (cap_assign s) = student s" "date (cap_assign s) = date s"
  "check_in_time (cap_assign s) = check_in_time s"
  by (simp_all add: cap_assign_def Let_def)

lemma sessions_update_daily_stats [simp]:
  "sessions (update_daily_stats st stu d) = sessions st"
  by (simp add: update_daily_stats_def Let_def)

lemma completed_on_update_daily_stats [simp]:
  "completed_on (update_daily_stats st stu d) stu' d' = completed_on st stu' d'"
  by (simp add: completed_on_def)


lemma daily_stats_update_other:
  "(stu', d') \<noteq> (stu, d) \<Longrightarrow> daily_stats (update_daily_stats st stu d) (stu', d') = daily_stats st (stu', d')"
  by (auto simp add: update_daily_stats_def Let_def)



lemma cap_step_apply:
  "cap_step (st, e, u) x =
     (if needs_cap x then (apply_upd st (cap_assign x), Suc e, Suc u) else (st, Suc e, u))"
  by (simp add: cap_step_def apply_upd_def needs_cap_def Let_def)

lemma cap_loop:
  "foldl cap_step (st, e, u) qs =
     (foldl apply_upd st (map cap_assign (filter needs_cap qs)), e + length qs,
      u + length (filter needs_cap qs))"
  by (induction qs arbitrary: st e u) (simp_all add: cap_step_apply)

lemma sessions_apply_upd:
  "sessions (apply_upd st y) =
     (if pk y \<in> pk ` set (sessions st)
      then map (\<lambda>r. if pk r = pk y then save_fields y else r) (sessions st)
      else sessions st @ [save_fields y])"
  by (simp add: apply_upd_def save_def db_write_def)

lemma map_pk_apply_upd:
  "pk y \<in> pk ` set (sessions st) \<Longrightarrow> map pk (sessions (apply_upd st y)) = map pk (sessions st)"
  by (simp add: sessions_apply_upd)

lemma sessions_run:
  "distinct (map pk ys) \<Longrightarrow> pk ` set ys \<subseteq> pk ` set (sessions st) \<Longrightarrow>
   sessions (foldl apply_upd st ys) =
     map (\<lambda>r. case find (\<lambda>y. pk y = pk r) ys of Some y \<Rightarrow> save_fields y | None \<Rightarrow> r) (sessions st)"
proof (induction ys arbitrary: st)
  case Nil
  then show ?case by simp
next
  case (Cons y ys)
  have in_st: "pk y \<in> pk ` set (sessions st)" using Cons.prems(2) by simp
  have pks: "map pk (sessions (apply_upd st y)) = map pk (sessions st)"
    using in_st by (rule map_pk_apply_upd)
  have "pk ` set (sessions (apply_upd st y)) = pk ` set (sessions st)"
    using arg_cong [OF pks, of set] by simp
  then have sub: "pk ` set ys \<subseteq> pk ` set (sessions (apply_upd st y))"
    using Cons.prems(2) by simp
  have dist: "distinct (map pk ys)" and fresh: "pk y \<notin> pk ` set ys"
    using Cons.prems(1) by simp_all
  have none: "find (\<lambda>z. pk z = pk y) ys = None"
    using fresh unfolding find_None_iff by (metis imageI)
  show ?case
    using Cons.IH [OF dist sub] in_st none
    by (simp add: sessions_apply_upd)
qed

lemma find_by_pk:
  assumes "distinct (map pk rows)" "set qs \<subseteq> set rows" "r \<in> set rows"
    and "\<And>x. pk (F x) = pk x"
  shows "find (\<lambda>y. pk y = pk r) (map F qs) = (if r \<in> set qs then Some (F r) else None)"
  using assms(2)
proof (induction qs)
  case Nil
  then show ?case by simp
next
  case (Cons q qs)
  have inj: "inj_on pk (set rows)" using assms(1) by (simp add: distinct_map)
  have "q \<in> set rows" using Cons.prems by simp
  then have eq: "pk q = pk r \<longleftrightarrow> q = r"
    using inj assms(3) by (auto dest: inj_onD)
  show ?case using Cons eq assms(4) by auto
qed

lemma sessions_run_selected:
  assumes d: "distinct (map pk (sessions st))"
    and qs: "distinct qs" "set qs = {r \<in> set (sessions st). P r}"
    and F: "\<And>x. pk (F x) = pk x"
  shows "sessions (foldl apply_upd st (map F qs)) =
           map (\<lambda>r. if P r then save_fields (F r) else r) (sessions st)"
proof -
  have inj: "inj_on pk (set (sessions st))" using d by (simp add: distinct_map)
  have sub: "set qs \<subseteq> set (sessions st)" using qs(2) by auto
  have "inj_on pk (set qs)" using inj sub by (rule inj_on_subset)
  then have d1: "distinct (map pk (map F qs))"
    using qs(1) by (simp add: distinct_map F comp_def)
  have s1: "pk ` set (map F qs) \<subseteq> pk ` set (sessions st)"
    using sub by (auto simp: F)
  have "sessions (foldl apply_upd st (map F qs)) =
          map (\<lambda>r. case find (\<lambda>y. pk y = pk r) (map F qs) of
                       Some y \<Rightarrow> save_fields y | None \<Rightarrow> r) (sessions st)"
    using d1 s1 by (rule sessions_run)
  also have "\<dots> = map (\<lambda>r. if P r then save_fields (F r) else r) (sessions st)"
  proof (rule map_cong [OF refl])
    fix r assume r: "r \<in> set (sessions st)"
    have "find (\<lambda>y. pk y = pk r) (map F qs) = (if r \<in> set qs then Some (F r) else None)"
      using d sub r F by (rule find_by_pk)
    then show "(case find (\<lambda>y. pk y = pk r) (map F qs) of
                  Some y \<Rightarrow> save_fields y | None \<Rightarrow> r) =
               (if P r then save_fields (F r) else r)"
      using r qs(2) by simp
  qed
  finally show ?thesis .
qed


lemma capper_result:
  "cap_sessions_on_previous_days_to_two_hours st today =
     (let qs = sort_key check_in_time (filter (\<lambda>s. date s < today) (sessions st))
      in (foldl apply_upd st (map cap_assign (filter needs_cap qs)), length qs,
          length (filter needs_cap qs)))"
  by (simp add: cap_sessions_on_previous_days_to_two_hours_def cap_loop Let_def)


lemma capper_sessions:
  assumes "distinct (map pk (sessions st))"
  shows "sessions (fst (cap_sessions_on_previous_days_to_two_hours st today)) =
           map (\<lambda>r. if date r < today \<and> needs_cap r then save_fields (cap_assign r) else r)
             (sessions st)"
proof -
  let ?qs = "filter needs_cap (sort_key check_in_time (filter (\<lambda>s. date s < today) (sessions st)))"
  have "distinct (sessions st)" using assms by (simp add: distinct_map)
  then have 1: "distinct ?qs" by simp
  have 2: "set ?qs = {r \<in> set (sessions st). date r < today \<and> needs_cap r}" by auto
  have "sessions (foldl apply_upd st (map cap_assign ?qs)) =
          map (\<lambda>r. if date r < today \<and> needs_cap r then save_fields (cap_assign r) else r)
            (sessions st)"
    using assms 1 2 by (rule sessions_run_selected) simp
  then show ?thesis by (simp add: capper_result Let_def)
qed


lemma save_cap_assign:
  "save_fields (cap_assign s) =
     s\<lparr>check_out_time := Some (check_in_time s + two_hours),
       duration_minutes := 120, is_active := False\<rparr>"
  by (simp add: save_fields_def cap_assign_def Let_def int_minutes_def two_hours_def
      usec_per_second_def)



















lemma sort_key_Nil_iff: "sort_key f xs = [] \<longleftrightarrow> xs = []"
  using length_sort [of f xs] by (metis length_0_conv)

lemma first_None_iff: "(case ys of [] \<Rightarrow> None | s # _ \<Rightarrow> Some s) = None \<longleftrightarrow> ys = []"
  by (cases ys) simp_all


lemma active_session_None:
  "active_session st stu = None \<longleftrightarrow>
     filter (\<lambda>s. student s = stu \<and> is_active s) (sessions st) = []"
  unfolding active_session_def first_None_iff sort_key_Nil_iff ..



lemma int_minutes_le:
  assumes "td \<le> two_hours"
  shows "int_minutes td \<le> 120"
proof (cases "td < 0")
  case True
  then have "0 \<le> (- td) div 60000000" by (simp add: pos_imp_zdiv_nonneg_iff)
  then show ?thesis using True by (simp add: int_minutes_def usec_per_second_def)
next
  case False
  have "td div 60000000 \<le> 7200000000 div 60000000"
    using assms by (intro zdiv_mono1) (simp_all add: two_hours_def usec_per_second_def)
  then show ?thesis using False by (simp add: int_minutes_def usec_per_second_def)
qed

section \<open>The session capper\<close>

text \<open>
  Claim C1, as stated, fails: the capper's query is restricted to \<open>date < today\<close>, so a
  completed session dated today keeps a duration above 120. In the example store the
  eleven-hour visit of today (the fifth row) still has 660 minutes after the capper ran
  with today = day 1.
\<close>

theorem capper_skips_today_counterexample:
  "date (sessions (fst (cap_sessions_on_previous_days_to_two_hours demo_store 1)) ! 4) = 1
   \<and> duration_minutes
       (sessions (fst (cap_sessions_on_previous_days_to_two_hours demo_store 1)) ! 4) = 660
   \<and> \<not> duration_minutes
       (sessions (fst (cap_sessions_on_previous_days_to_two_hours demo_store 1)) ! 4) \<le> 120"
  by (simp add: demo_defs time_defs maintenance_defs Let_def)

text \<open>
  Claim C1, amended: after the capper has run, every completed session dated strictly
  before today has \<open>duration_minutes \<le> 120\<close>, provided the stored duration of every
  completed session agreed with its timestamps before the run (as \<open>save\<close> leaves it).
  Sessions dated today or later are not examined.
\<close>

theorem capper_bounds_previous_days:
  assumes "distinct (map pk (sessions st))"
    and "\<forall>s\<in>set (sessions st). \<forall>co. check_out_time s = Some co \<longrightarrow>
           duration_minutes s = int_minutes (co - check_in_time s)"
    and "r \<in> set (sessions (fst (cap_sessions_on_previous_days_to_two_hours st today)))"
    and "date r < today" and "check_out_time r \<noteq> None"
  shows "duration_minutes r \<le> 120"
proof -
  from assms(3) obtain s where s: "s \<in> set (sessions st)"
    and r: "r = (if date s < today \<and> needs_cap s then save_fields (cap_assign s) else s)"
    unfolding capper_sessions [OF assms(1)] by auto
  show ?thesis
  proof (cases "date s < today \<and> needs_cap s")
    case True
    then show ?thesis using r by (simp add: save_cap_assign)
  next
    case False
    then have rs: "r = s" unfolding r by (rule if_not_P)
    then have "\<not> needs_cap s" using False assms(4) by simp
    moreover obtain co where co: "check_out_time s = Some co" using assms(5) rs by auto
    ultimately have "co - check_in_time s \<le> two_hours"
      by (simp add: needs_cap_def actual_checkout_def)
    then have "int_minutes (co - check_in_time s) \<le> 120" by (rule int_minutes_le)
    then show ?thesis using assms(2) s co rs by simp
  qed
qed

theorem capper_bounds_previous_days_witness:
  "distinct (map pk (sessions demo_store))
   \<and> map (\<lambda>s. (check_out_time s, duration_minutes s,
                 int_minutes (actual_checkout s - check_in_time s))) (sessions demo_store) =
       [(Some 74072000000, 661, 661), (None, 0, 899), (None, 0, 59), (None, 0, 959),
        (Some 158400000000, 660, 660)]
   \<and> sessions (fst (cap_sessions_on_previous_days_to_two_hours demo_store 1)) ! 0
       \<in> set (sessions (fst (cap_sessions_on_previous_days_to_two_hours demo_store 1)))
   \<and> date (sessions (fst (cap_sessions_on_previous_days_to_two_hours demo_store 1)) ! 0) < 1
   \<and> check_out_time (sessions (fst (cap_sessions_on_previous_days_to_two_hours demo_store 1)) ! 0)
       \<noteq> None
   \<and> duration_minutes (sessions (fst (cap_sessions_on_previous_days_to_two_hours demo_store 1)) ! 0)
       \<le> 120"
proof -
  let ?r = "sessions (fst (cap_sessions_on_previous_days_to_two_hours demo_store 1)) ! 0"
  have rows: "sessions (fst (cap_sessions_on_previous_days_to_two_hours demo_store 1)) =
      [\<lparr>pk = 1, student = 1, check_in_time = 34365000000, check_out_time = Some 41565000000,
         duration_minutes = 120, date = 0, is_active = False\<rparr>,
       \<lparr>pk = 2, student = 2, check_in_time = 32400000000, check_out_time = Some 39600000000,
         duration_minutes = 120, date = 0, is_active = False\<rparr>,
       \<lparr>pk = 3, student = 1, check_in_time = 82800000000, check_out_time = None,
         duration_minutes = 0, date = 0, is_active = True\<rparr>,
       \<lparr>pk = 4, student = 2, check_in_time = 115200000000, check_out_time = None,
         duration_minutes = 0, date = 1, is_active = True\<rparr>,
       \<lparr>pk = 5, student = 3, check_in_time = 118800000000, check_out_time = Some 158400000000,
         duration_minutes = 660, date = 1, is_active = False\<rparr>]"
    by (simp add: demo_defs time_defs maintenance_defs Let_def)
  have h1: "distinct (map pk (sessions demo_store))"
    by (simp add: demo_defs)
  have h2: "\<forall>s\<in>set (sessions demo_store). \<forall>co. check_out_time s = Some co \<longrightarrow>
              duration_minutes s = int_minutes (co - check_in_time s)"
    by (simp add: demo_defs time_defs)
  have h3: "?r \<in> set (sessions (fst (cap_sessions_on_previous_days_to_two_hours demo_store 1)))"
    unfolding rows by simp
  have h4: "date ?r < 1" unfolding rows by simp
  have h5: "check_out_time ?r \<noteq> None" unfolding rows by simp
  have h6: "map (\<lambda>s. (check_out_time s, duration_minutes s,
                       int_minutes (actual_checkout s - check_in_time s))) (sessions demo_store) =
              [(Some 74072000000, 661, 661), (None, 0, 899), (None, 0, 59), (None, 0, 959),
               (Some 158400000000, 660, 660)]"
    by (simp add: demo_defs time_defs actual_checkout_def)
  from capper_bounds_previous_days [OF h1 h2 h3 h4 h5]
  show ?thesis using h1 h3 h4 h5 h6 by blast
qed

text \<open>
  Claim C4, as stated, fails for the same reason as C1: the capper's query holds only
  the sessions dated before today. In the example store the completed session of today
  (the fifth row) lasts eleven hours, and after a run with today = day 1 it is stored as
  it was, not with check-out = check-in + 120 minutes.
\<close>

theorem capper_rule_today_counterexample:
  "check_out_time (sessions demo_store ! 4) = Some 158400000000
   \<and> 158400000000 - check_in_time (sessions demo_store ! 4) > 120 * (60 * usec_per_second)
   \<and> sessions (fst (cap_sessions_on_previous_days_to_two_hours demo_store 1)) ! 4 =
       sessions demo_store ! 4
   \<and> check_out_time (sessions (fst (cap_sessions_on_previous_days_to_two_hours demo_store 1)) ! 4)
       \<noteq> Some (check_in_time (sessions demo_store ! 4) + 120 * (60 * usec_per_second))
   \<and> duration_minutes (sessions (fst (cap_sessions_on_previous_days_to_two_hours demo_store 1)) ! 4)
       \<noteq> 120"
  by (simp add: demo_defs time_defs maintenance_defs Let_def)

text \<open>
  Claim C4, amended: after a run of the capper, every completed session dated strictly
  before today whose \<open>check_out - check_in\<close> exceeded 120 minutes is stored with
  \<open>check_out = check_in + 120 minutes\<close>, duration exactly 120 and \<open>is_active\<close> false;
  a completed session dated before today at or under 120 minutes, and every completed
  session dated today or later, is stored as it was.
\<close>

theorem capper_rule_previous_days:
  assumes "distinct (map pk (sessions st))"
    and "i < length (sessions st)" and "s = sessions st ! i"
    and "check_out_time s = Some co"
  shows "(date s < today \<longrightarrow>
            sessions (fst (cap_sessions_on_previous_days_to_two_hours st today)) ! i =
              (if co - check_in_time s > 120 * (60 * usec_per_second)
               then s\<lparr>check_out_time := Some (check_in_time s + 120 * (60 * usec_per_second)),
                      duration_minutes := 120, is_active := False\<rparr>
               else s))
       \<and> (\<not> date s < today \<longrightarrow>
            sessions (fst (cap_sessions_on_previous_days_to_two_hours st today)) ! i = s)"
proof -
  have th: "two_hours = 120 * (60 * usec_per_second)" by (simp add: two_hours_def)
  have nc: "needs_cap s \<longleftrightarrow> co - check_in_time s > 120 * (60 * usec_per_second)"
    using assms(4) by (simp add: needs_cap_def actual_checkout_def th)
  have row: "sessions (fst (cap_sessions_on_previous_days_to_two_hours st today)) ! i =
               (if date s < today \<and> needs_cap s then save_fields (cap_assign s) else s)"
    using assms(2,3) by (simp add: capper_sessions [OF assms(1)])
  show ?thesis
    unfolding row using nc by (simp add: save_cap_assign th)
qed

text \<open>
  The session of the previous day with check-in 09:32:45 and check-out 20:34:32 is
  capped to check-out 11:32:45 with duration 120.
\<close>

theorem capper_rule_previous_days_witness:
  "distinct (map pk (sessions demo_store))
   \<and> 0 < length (sessions demo_store)
   \<and> date (sessions demo_store ! 0) < 1
   \<and> check_in_time (sessions demo_store ! 0) = (9 * 3600 + 32 * 60 + 45) * usec_per_second
   \<and> check_out_time (sessions demo_store ! 0) = Some ((20 * 3600 + 34 * 60 + 32) * usec_per_second)
   \<and> sessions (fst (cap_sessions_on_previous_days_to_two_hours demo_store 1)) ! 0 =
       \<lparr>pk = 1, student = 1, check_in_time = (9 * 3600 + 32 * 60 + 45) * usec_per_second,
        check_out_time = Some ((11 * 3600 + 32 * 60 + 45) * usec_per_second),
        duration_minutes = 120, date = 0, is_active = False\<rparr>"
proof -
  have h1: "distinct (map pk (sessions demo_store))" by (simp add: demo_defs)
  have h2: "0 < length (sessions demo_store)" by (simp add: demo_defs)
  have h3: "date (sessions demo_store ! 0) < 1" by (simp add: demo_defs)
  have h4: "check_out_time (sessions demo_store ! 0) = Some 74072000000"
    by (simp add: demo_defs)
  have "sessions (fst (cap_sessions_on_previous_days_to_two_hours demo_store 1)) ! 0 =
          (if 74072000000 - check_in_time (sessions demo_store ! 0) > 120 * (60 * usec_per_second)
           then (sessions demo_store ! 0)
                  \<lparr>check_out_time :=
                     Some (check_in_time (sessions demo_store ! 0) + 120 * (60 * usec_per_second)),
                   duration_minutes := 120, is_active := False\<rparr>
           else sessions demo_store ! 0)"
    using capper_rule_previous_days [OF h1 h2 refl h4, of 1] h3 by blast
  then have run: "sessions (fst (cap_sessions_on_previous_days_to_two_hours demo_store 1)) ! 0 =
       \<lparr>pk = 1, student = 1, check_in_time = (9 * 3600 + 32 * 60 + 45) * usec_per_second,
        check_out_time = Some ((11 * 3600 + 32 * 60 + 45) * usec_per_second),
        duration_minutes = 120, date = 0, is_active = False\<rparr>"
    by (simp add: demo_defs usec_per_second_def)
  have t: "check_in_time (sessions demo_store ! 0) = (9 * 3600 + 32 * 60 + 45) * usec_per_second
         \<and> check_out_time (sessions demo_store ! 0) =
             Some ((20 * 3600 + 34 * 60 + 32) * usec_per_second)"
    by (simp add: demo_defs usec_per_second_def)
  show ?thesis using h1 h2 h3 t run by blast
qed

section \<open>The stale-session closer\<close>





text \<open>
  Claim C8 fails on the code. The closer clamps its own \<open>duration_minutes\<close> to zero,
  but \<open>save\<close> then recomputes the field from the two timestamps: for the session opened
  ninety seconds after the end of its date the value assigned is 0 and the value stored
  is -1.
\<close>

theorem closer_clamp_overridden:
  "duration_minutes (close_assign skew_session) = 0
   \<and> sessions (fst (close_stale_sessions_before_today skew_store 5)) =
       [\<lparr>pk = 1, student = 1, check_in_time = 86489000000, check_out_time = Some 86399000000,
          duration_minutes = - 1, date = 0, is_active = False\<rparr>]"
  by (simp add: skew_store_def skew_session_def time_defs maintenance_defs Let_def)

section \<open>The daily aggregate\<close>



section \<open>Check-in and check-out\<close>

text \<open>
  Claim C5: for a registered, active student, a check-in request while a session of the
  student is active is answered with the already-checked-in error and the store is left
  as it was (the existing session is not closed and no session is created); a check-out
  request while no session of the student is active is answered with the
  not-checked-in error and the store is left as it was.
\<close>

theorem invalid_transitions_rejected:
  assumes "find (\<lambda>u. student_id u = sid \<and> student_is_active u) (students st) = Some u"
  shows "(filter (\<lambda>s. student s = student_pk u \<and> is_active s) (sessions st) \<noteq> [] \<longrightarrow>
            check_in_out_post st now sid Check_in = (st, Inl Already_checked_in))
       \<and> (filter (\<lambda>s. student s = student_pk u \<and> is_active s) (sessions st) = [] \<longrightarrow>
            check_in_out_post st now sid Check_out = (st, Inl Not_checked_in))"
  using assms
  by (simp add: check_in_out_post_def validate_def Let_def active_session_None [symmetric])

theorem invalid_transitions_rejected_witness:
  "find (\<lambda>u. student_id u = ''2024-140123'' \<and> student_is_active u) (students demo_store) =
     Some \<lparr>student_pk = 2, student_id = ''2024-140123'', student_is_active = True\<rparr>
   \<and> filter (\<lambda>s. student s = 2 \<and> is_active s) (sessions demo_store) \<noteq> []
   \<and> check_in_out_post demo_store 120000000000 ''2024-140123'' Check_in =
       (demo_store, Inl Already_checked_in)
   \<and> find (\<lambda>u. student_id u = ''2022-040777'' \<and> student_is_active u) (students demo_store) =
       Some \<lparr>student_pk = 3, student_id = ''2022-040777'', student_is_active = True\<rparr>
   \<and> filter (\<lambda>s. student s = 3 \<and> is_active s) (sessions demo_store) = []
   \<and> check_in_out_post demo_store 120000000000 ''2022-040777'' Check_out =
       (demo_store, Inl Not_checked_in)"
proof -
  have f2: "find (\<lambda>u. student_id u = ''2024-140123'' \<and> student_is_active u) (students demo_store) =
              Some \<lparr>student_pk = 2, student_id = ''2024-140123'', student_is_active = True\<rparr>"
    by (simp add: demo_defs)
  have f3: "find (\<lambda>u. student_id u = ''2022-040777'' \<and> student_is_active u) (students demo_store) =
              Some \<lparr>student_pk = 3, student_id = ''2022-040777'', student_is_active = True\<rparr>"
    by (simp add: demo_defs)
  have a2: "filter (\<lambda>s. student s = 2 \<and> is_active s) (sessions demo_store) \<noteq> []"
    by (simp add: demo_defs)
  have a3: "filter (\<lambda>s. student s = 3 \<and> is_active s) (sessions demo_store) = []"
    by (simp add: demo_defs)
  from invalid_transitions_rejected [OF f2, of 120000000000] a2
  have r2: "check_in_out_post demo_store 120000000000 ''2024-140123'' Check_in =
              (demo_store, Inl Already_checked_in)" by simp
  from invalid_transitions_rejected [OF f3, of 120000000000] a3
  have r3: "check_in_out_post demo_store 120000000000 ''2022-040777'' Check_out =
              (demo_store, Inl Not_checked_in)" by simp
  show ?thesis using f2 f3 a2 a3 r2 r3 by blast
qed

text \<open>
  Claim C6: \<open>can_check_in\<close> answers yes exactly when no session of the student is active
  and the student's daily total for the date is below 120; the daily total is the sum of
  \<open>duration_minutes\<close> over the student's sessions of that date with a check-out time,
  so a session without a check-out time adds nothing to it; and for a registered, active
  student a check-in request passes validation under exactly the same condition, taken
  at today's date.
\<close>

theorem check_in_permission:
  "(fst (can_check_in st stu d) \<longleftrightarrow>
      filter (\<lambda>s. student s = stu \<and> is_active s) (sessions st) = [] \<and>
      get_daily_gym_time st stu d < 120)
   \<and> get_daily_gym_time st stu d =
       sum_list (map duration_minutes
         (filter (\<lambda>s. student s = stu \<and> date s = d \<and> check_out_time s \<noteq> None) (sessions st)))
   \<and> (check_out_time a = None \<longrightarrow>
        get_daily_gym_time (st\<lparr>sessions := sessions st @ [a]\<rparr>) stu d =
        get_daily_gym_time st stu d)
   \<and> (find (\<lambda>u. student_id u = sid \<and> student_is_active u) (students st) = Some u \<longrightarrow>
        ((\<exists>v. validate st today sid Check_in = Inr v) \<longleftrightarrow>
           filter (\<lambda>s. student s = student_pk u \<and> is_active s) (sessions st) = [] \<and>
           get_daily_gym_time st (student_pk u) today < 120))"
proof (intro conjI impI)
  show "fst (can_check_in st stu d) \<longleftrightarrow>
          filter (\<lambda>s. student s = stu \<and> is_active s) (sessions st) = [] \<and>
          get_daily_gym_time st stu d < 120"
    by (cases "active_session st stu")
       (auto simp: can_check_in_def Let_def active_session_None [symmetric])
next
  show "get_daily_gym_time st stu d =
          sum_list (map duration_minutes
            (filter (\<lambda>s. student s = stu \<and> date s = d \<and> check_out_time s \<noteq> None) (sessions st)))"
    by (simp add: get_daily_gym_time_def completed_on_def)
next
  assume "check_out_time a = None"
  then show "get_daily_gym_time (st\<lparr>sessions := sessions st @ [a]\<rparr>) stu d =
             get_daily_gym_time st stu d"
    by (simp add: get_daily_gym_time_def completed_on_def)
next
  assume u: "find (\<lambda>u. student_id u = sid \<and> student_is_active u) (students st) = Some u"
  show "(\<exists>v. validate st today sid Check_in = Inr v) \<longleftrightarrow>
          filter (\<lambda>s. student s = student_pk u \<and> is_active s) (sessions st) = [] \<and>
          get_daily_gym_time st (student_pk u) today < 120"
  proof (cases "active_session st (student_pk u)")
    case None
    then show ?thesis using u
      by (auto simp: validate_def can_check_in_def Let_def active_session_None [symmetric])
  next
    case (Some a0)
    then show ?thesis using u
      by (auto simp: validate_def Let_def active_session_None [symmetric])
  qed
qed

theorem check_in_permission_witness:
  "fst (can_check_in demo_store 4 1)
   \<and> \<not> fst (can_check_in demo_store 2 1)
   \<and> \<not> fst (can_check_in demo_store 3 1)
   \<and> get_daily_gym_time demo_store 3 1 = 660
   \<and> get_daily_gym_time demo_store 2 1 = 0
   \<and> check_out_time (demo_sessions ! 3) = None
   \<and> get_daily_gym_time (demo_store\<lparr>sessions := sessions demo_store @ [demo_sessions ! 3]\<rparr>) 2 1 =
       get_daily_gym_time demo_store 2 1
   \<and> find (\<lambda>u. student_id u = ''2025-000004'' \<and> student_is_active u) (students demo_store) =
       Some \<lparr>student_pk = 4, student_id = ''2025-000004'', student_is_active = True\<rparr>
   \<and> (\<exists>v. validate demo_store 1 ''2025-000004'' Check_in = Inr v)"
proof -
  let ?u = "\<lparr>student_pk = 4, student_id = ''2025-000004'', student_is_active = True\<rparr>"
  have f4: "find (\<lambda>u. student_id u = ''2025-000004'' \<and> student_is_active u) (students demo_store) =
              Some ?u"
    by (simp add: demo_defs)
  have n4: "filter (\<lambda>s. student s = 4 \<and> is_active s) (sessions demo_store) = []"
    by (simp add: demo_defs)
  have n2: "filter (\<lambda>s. student s = 2 \<and> is_active s) (sessions demo_store) \<noteq> []"
    by (simp add: demo_defs)
  have g4: "get_daily_gym_time demo_store 4 1 = 0"
    by (simp add: get_daily_gym_time_def completed_on_def demo_defs)
  have g3: "get_daily_gym_time demo_store 3 1 = 660"
    by (simp add: get_daily_gym_time_def completed_on_def demo_defs)
  have g2: "get_daily_gym_time demo_store 2 1 = 0"
    by (simp add: get_daily_gym_time_def completed_on_def demo_defs)
  have o: "check_out_time (demo_sessions ! 3) = None" by (simp add: demo_defs)
  have c4: "fst (can_check_in demo_store 4 1)"
    using check_in_permission [of demo_store 4 1] n4 g4 by simp
  have c2: "\<not> fst (can_check_in demo_store 2 1)"
    using check_in_permission [of demo_store 2 1] n2 by simp
  have c3: "\<not> fst (can_check_in demo_store 3 1)"
    using check_in_permission [of demo_store 3 1] g3 by simp
  have e: "get_daily_gym_time (demo_store\<lparr>sessions := sessions demo_store @ [demo_sessions ! 3]\<rparr>) 2 1 =
           get_daily_gym_time demo_store 2 1"
    using check_in_permission [of demo_store 2 1 "demo_sessions ! 3"] o by simp
  have v: "\<exists>v. validate demo_store 1 ''2025-000004'' Check_in = Inr v"
    using check_in_permission [of demo_store 4 1 "demo_sessions ! 3" "''2025-000004''" ?u 1]
      f4 n4 g4 by simp
  show ?thesis using c4 c2 c3 g3 g2 o e f4 v by blast
qed

section \<open>Saving a session\<close>

text \<open>
  What \<open>save\<close> does on a session with a check-out time: it overwrites whatever duration
  was assigned before, clears \<open>is_active\<close>, and, when the check-out is not before the
  check-in, stores the floor of the difference in minutes.
\<close>

lemma save_fields_completed:
  assumes "check_out_time s = Some co"
  shows "save_fields s =
           s\<lparr>duration_minutes := int_minutes (co - check_in_time s), is_active := False\<rparr>"
    and "save_fields (s\<lparr>duration_minutes := m\<rparr>) = save_fields s"
    and "\<not> is_active (save_fields s)"
  using assms by (simp_all add: save_fields_def)

lemma save_fields_floor:
  assumes "check_out_time s = Some co" and "check_in_time s \<le> co"
  shows "duration_minutes (save_fields s) = (co - check_in_time s) div (60 * usec_per_second)"
  using assms by (simp add: save_fields_def int_minutes_def)

text \<open>
  No stored session has a check-out time while marked active: \<open>save\<close> keeps this true of
  the store.
\<close>

lemma save_keeps_closed_inactive:
  assumes "\<forall>r\<in>set (sessions st). check_out_time r \<noteq> None \<longrightarrow> \<not> is_active r"
  shows "\<forall>r\<in>set (sessions (save st s)). check_out_time r \<noteq> None \<longrightarrow> \<not> is_active r"
proof -
  have new: "check_out_time (save_fields s) \<noteq> None \<longrightarrow> \<not> is_active (save_fields s)"
    by (simp add: save_fields_def split: option.split)
  show ?thesis
    using assms new by (auto simp: save_def db_write_def)
qed


section \<open>Choosing the primary record of a duplicate group\<close>

text \<open>
  Claim C9 fails on the code at the third tie-break. The comment above the sort key
  asks for the most recent registration to win; the key holds the registration date
  ascending, so of two candidates equal in ID pattern and in RFID presence the one
  registered earlier is chosen, in either order of the input.
\<close>

theorem choose_primary_prefers_earliest:
  "id_score (row_student_id cand_earlier) = id_score (row_student_id cand_later)
   \<and> row_rfid cand_earlier \<noteq> None \<and> row_rfid cand_later \<noteq> None
   \<and> row_registration_date cand_earlier = Some ''2024-08-01 09:00:00''
   \<and> row_registration_date cand_later = Some ''2025-02-10 09:00:00''
   \<and> ''2024-08-01 09:00:00'' < ''2025-02-10 09:00:00''
   \<and> choose_primary [cand_later, cand_earlier] = Some cand_earlier
   \<and> choose_primary [cand_earlier, cand_later] = Some cand_earlier"
  by (simp add: choose_primary_def key_def id_score_def is_digit_def
      cand_earlier_def cand_later_def)

end
